theory Spec2Isabelle
  imports Complex_Main
begin

section \<open>Numbers and rounding\<close>

text \<open>
  The calculators of the repository work on JavaScript numbers. Amounts and rates are
  modelled as \<^typ>\<open>real\<close>, and every value the source passes through
  \<^verbatim>\<open>Math.round\<close> as \<^typ>\<open>int\<close>. In the calculators the arithmetic is the
  exact one: the rounding error of double precision (about 1e-16 relative) is far below the
  unit to which every published amount is rounded. The values NaN and Infinity are not part
  of the model, except where the source itself writes \<^verbatim>\<open>Infinity\<close> (the open
  end of the bracket table, and the starting value of \<^verbatim>\<open>optimalTax\<close>), which is
  modelled by \<open>None\<close> and by a constructor.

  \<^verbatim>\<open>Math.round\<close> rounds to the nearest integer, a half towards plus infinity.
\<close>

definition Math_round :: "real \<Rightarrow> int" where
  "Math_round x = \<lfloor>x + 1 / 2\<rfloor>"

section \<open>Rate table (config/taxRates.js)\<close>

definition CORPORATE_TAX_RATE :: real where
  "CORPORATE_TAX_RATE = 0.22"

text \<open>
  The employer contribution rates, in the order in which \<^verbatim>\<open>Object.keys\<close> lists
  them: the integer-like keys ascending, then the other keys in insertion order.
\<close>

definition EMPLOYER_SOCIAL_SECURITY_RATES_table :: "(string \<times> real) list" where
  "EMPLOYER_SOCIAL_SECURITY_RATES_table =
     [(''1'', 0.141), (''2'', 0.106), (''3'', 0.064), (''4'', 0.054), (''5'', 0.00),
      (''1a'', 0.141), (''4a'', 0.079)]"

definition EMPLOYER_SOCIAL_SECURITY_RATES :: "string \<Rightarrow> real option" where
  "EMPLOYER_SOCIAL_SECURITY_RATES = map_of EMPLOYER_SOCIAL_SECURITY_RATES_table"

definition PERSONAL_TAX_RATE :: real where
  "PERSONAL_TAX_RATE = 0.22"

record bracket =
  threshold :: real
  rate :: real

definition BRACKET_TAX_2025 :: "bracket list" where
  "BRACKET_TAX_2025 =
     [\<lparr>threshold = 217400, rate = 0.017\<rparr>,
      \<lparr>threshold = 306050, rate = 0.04\<rparr>,
      \<lparr>threshold = 697150, rate = 0.137\<rparr>,
      \<lparr>threshold = 942400, rate = 0.167\<rparr>,
      \<lparr>threshold = 1410750, rate = 0.176\<rparr>]"

definition SOCIAL_SECURITY_RATES_salary :: real where
  "SOCIAL_SECURITY_RATES_salary = 0.078"

definition SOCIAL_SECURITY_THRESHOLD :: real where
  "SOCIAL_SECURITY_THRESHOLD = 69650"

definition DIVIDEND_GROSS_UP_FACTOR :: real where
  "DIVIDEND_GROSS_UP_FACTOR = 1.72"

definition EFFECTIVE_DIVIDEND_TAX_RATE :: real where
  "EFFECTIVE_DIVIDEND_TAX_RATE = PERSONAL_TAX_RATE * DIVIDEND_GROSS_UP_FACTOR"


definition MINSTEFRADRAG_rate :: real where
  "MINSTEFRADRAG_rate = 0.46"

definition MINSTEFRADRAG_minimum :: real where
  "MINSTEFRADRAG_minimum = 4000"

definition MINSTEFRADRAG_maximum :: real where
  "MINSTEFRADRAG_maximum = 114950"

definition PERSONFRADRAG :: real where
  "PERSONFRADRAG = 73150"

definition OTP_MIN_RATE :: real where
  "OTP_MIN_RATE = 0.02"

definition OTP_MAX_RATE :: real where
  "OTP_MAX_RATE = 0.07"





section \<open>Salary calculations (calculations/salaryCalculations.js)\<close>

text \<open>
  The two exceptions the calculators throw. The human-readable step lists
  (\<^verbatim>\<open>calculationSteps\<close>, \<^verbatim>\<open>assumptions\<close>, names and descriptions) are
  text only and are left out of the result records, as are the echo of the input and the
  constants of the rate table that a result repeats. The computed numeric fields are kept,
  a value that the source publishes under several names once.
\<close>

datatype error = InvalidEmployerZone string | SalaryRatioOutOfRange

record max_gross_salary =
  mg_grossSalary :: int
  mg_employerAGA :: int
  mg_pensionContribution :: int
  mg_pensionAGA :: int
  mg_totalEmployerCost :: int

text \<open>
  \<^verbatim>\<open>calculateMaxGrossSalary(availableAmount, zone, includePension, pensionRate)\<close>.
  The division is the source's; where \<open>totalCostFactor\<close> is zero the source yields a
  non-finite number, which the model does not have, so statements about the quotient are
  made where the factor is not zero.
\<close>

definition calculateMaxGrossSalary ::
  "real \<Rightarrow> string \<Rightarrow> bool \<Rightarrow> real \<Rightarrow> error + max_gross_salary" where
  "calculateMaxGrossSalary availableAmount zone includePension pensionRate =
     (case EMPLOYER_SOCIAL_SECURITY_RATES zone of
        None \<Rightarrow> Inl (InvalidEmployerZone zone)
      | Some agaRate \<Rightarrow>
          (let pensionFactor = (if includePension then pensionRate else 0);
               totalCostFactor = 1 + agaRate + pensionFactor * (1 + agaRate);
               grossSalary = availableAmount / totalCostFactor;
               employerAGA = grossSalary * agaRate;
               pensionContribution = (if includePension then grossSalary * pensionRate else 0);
               pensionAGA = pensionContribution * agaRate
           in Inr \<lparr>mg_grossSalary = Math_round grossSalary,
                   mg_employerAGA = Math_round employerAGA,
                   mg_pensionContribution = Math_round pensionContribution,
                   mg_pensionAGA = Math_round pensionAGA,
                   mg_totalEmployerCost =
                     Math_round (grossSalary + employerAGA + pensionContribution + pensionAGA)\<rparr>))"

record bracket_step =
  bs_step :: nat
  bs_threshold :: real
  bs_rate :: real
  bs_taxableAmount :: int
  bs_tax :: int

record bracket_tax =
  totalBracketTax :: int
  breakdown :: "bracket_step list"

text \<open>
  The loop of \<^verbatim>\<open>calculateBracketTax\<close> over the bracket table: \<open>i\<close> is the index
  of the head of the remaining table, the next threshold is that of the following entry
  and \<open>None\<close> (the source's \<^verbatim>\<open>Infinity\<close>) after the last one. The state is the
  running total and the breakdown collected so far.
\<close>

definition min_next :: "real \<Rightarrow> real option \<Rightarrow> real" where
  "min_next x nextThreshold = (case nextThreshold of None \<Rightarrow> x | Some t \<Rightarrow> min x t)"

fun bracketTaxLoop ::
  "real \<Rightarrow> nat \<Rightarrow> bracket list \<Rightarrow> real \<times> bracket_step list \<Rightarrow> real \<times> bracket_step list" where
  "bracketTaxLoop grossSalary i [] acc = acc"
| "bracketTaxLoop grossSalary i (b # bs) (runningTotal, steps) =
     (let nextThreshold = (case bs of [] \<Rightarrow> None | b' # _ \<Rightarrow> Some (threshold b'))
      in if grossSalary > threshold b
         then (let taxableInBracket = min_next grossSalary nextThreshold - threshold b;
                   taxInBracket = taxableInBracket * rate b
               in bracketTaxLoop grossSalary (i + 1) bs
                    (runningTotal + taxInBracket,
                     steps @ [\<lparr>bs_step = i + 1, bs_threshold = threshold b, bs_rate = rate b,
                               bs_taxableAmount = Math_round taxableInBracket,
                               bs_tax = Math_round taxInBracket\<rparr>]))
         else bracketTaxLoop grossSalary (i + 1) bs (runningTotal, steps))"

definition calculateBracketTax :: "real \<Rightarrow> bracket_tax" where
  "calculateBracketTax grossSalary =
     (let (runningTotal, steps) = bracketTaxLoop grossSalary 0 BRACKET_TAX_2025 (0, [])
      in \<lparr>totalBracketTax = Math_round runningTotal, breakdown = steps\<rparr>)"

record social_security =
  contribution :: int
  ss_rate :: real
  taxableBase :: real

definition calculateSocialSecurityContribution :: "real \<Rightarrow> social_security" where
  "calculateSocialSecurityContribution grossSalary =
     (if grossSalary \<le> SOCIAL_SECURITY_THRESHOLD
      then \<lparr>contribution = 0, ss_rate = SOCIAL_SECURITY_RATES_salary, taxableBase = 0\<rparr>
      else \<lparr>contribution = Math_round (grossSalary * SOCIAL_SECURITY_RATES_salary),
            ss_rate = SOCIAL_SECURITY_RATES_salary, taxableBase = grossSalary\<rparr>)"

definition calculateMinstefradrag :: "real \<Rightarrow> int" where
  "calculateMinstefradrag grossSalary =
     (let m0 = grossSalary * MINSTEFRADRAG_rate;
          m1 = max m0 MINSTEFRADRAG_minimum;
          m2 = min m1 MINSTEFRADRAG_maximum;
          m3 = min m2 grossSalary
      in Math_round m3)"

record income_tax =
  incomeTax :: int
  taxableIncome :: int
  it_minstefradrag :: int

definition calculateIncomeTax :: "real \<Rightarrow> income_tax" where
  "calculateIncomeTax grossSalary =
     (let minstefradrag = calculateMinstefradrag grossSalary;
          taxable = max 0 (grossSalary - real_of_int minstefradrag - PERSONFRADRAG);
          tax = taxable * PERSONAL_TAX_RATE
      in \<lparr>incomeTax = Math_round tax, taxableIncome = Math_round taxable,
           it_minstefradrag = minstefradrag\<rparr>)"

text \<open>
  The options object of the scenario functions, with the source's defaults
  (\<^verbatim>\<open>includePension = false\<close>, \<^verbatim>\<open>pensionRate = 0.02\<close>,
  \<^verbatim>\<open>retentionPercentage = 0\<close>, \<^verbatim>\<open>shareCostBasis = 0\<close>). The retention
  percentage is a fraction of the profit, as the validator hands it over.
\<close>

record options =
  includePension :: bool
  pensionRate :: real
  retentionPercentage :: real
  shareCostBasis :: real

definition default_options :: options where
  "default_options =
     \<lparr>includePension = False, pensionRate = 0.02, retentionPercentage = 0, shareCostBasis = 0\<rparr>"

text \<open>The \<^verbatim>\<open>results\<close> object that every scenario returns.\<close>

record results =
  netPrivatePayout :: int
  totalTaxPaid :: int
  effectiveTaxRate :: real
  retainedInCompany :: int

record salary_scenario =
  sal_retainedEarnings :: int
  sal_availableForExtraction :: int
  sal_grossSalary :: int
  sal_employerAGA :: int
  sal_pensionContribution :: int
  sal_totalEmployerCost :: int
  sal_corporateTaxOnRetained :: int
  sal_trygdeavgift :: int
  sal_trinnskatt :: int
  sal_inntektsskatt :: int
  sal_totalPersonalTax :: int
  sal_netSalary :: int
  sal_effectivePersonalTaxRate :: real
  sal_results :: results

definition calculateSalaryScenario :: "real \<Rightarrow> string \<Rightarrow> options \<Rightarrow> error + salary_scenario" where
  "calculateSalaryScenario profit zone opts =
     (let retainedAmount = profit * retentionPercentage opts;
          availableForExtraction = profit - retainedAmount
      in case calculateMaxGrossSalary availableForExtraction zone
                (includePension opts) (pensionRate opts) of
           Inl e \<Rightarrow> Inl e
         | Inr salaryCalc \<Rightarrow>
            (let grossSalary = mg_grossSalary salaryCalc;
                 employerAGA = mg_employerAGA salaryCalc;
                 pensionContribution = mg_pensionContribution salaryCalc;
                 trygdeavgift = contribution (calculateSocialSecurityContribution (real_of_int grossSalary));
                 trinnskatt = totalBracketTax (calculateBracketTax (real_of_int grossSalary));
                 inntektsskatt = incomeTax (calculateIncomeTax (real_of_int grossSalary));
                 corporateTaxOnRetained = retainedAmount * CORPORATE_TAX_RATE;
                 totalPersonalTax = trygdeavgift + trinnskatt + inntektsskatt;
                 totalTax = real_of_int employerAGA + real_of_int totalPersonalTax + corporateTaxOnRetained;
                 netSalary = grossSalary - totalPersonalTax;
                 effectiveRate = (if profit > 0 then totalTax / profit else 0);
                 effectivePersonalTaxRate =
                   (if grossSalary > 0 then real_of_int totalPersonalTax / real_of_int grossSalary else 0)
             in Inr \<lparr>sal_retainedEarnings = Math_round retainedAmount,
                     sal_availableForExtraction = Math_round availableForExtraction,
                     sal_grossSalary = grossSalary,
                     sal_employerAGA = employerAGA,
                     sal_pensionContribution = pensionContribution,
                     sal_totalEmployerCost = grossSalary + employerAGA + pensionContribution,
                     sal_corporateTaxOnRetained = Math_round corporateTaxOnRetained,
                     sal_trygdeavgift = trygdeavgift,
                     sal_trinnskatt = trinnskatt,
                     sal_inntektsskatt = inntektsskatt,
                     sal_totalPersonalTax = totalPersonalTax,
                     sal_netSalary = netSalary,
                     sal_effectivePersonalTaxRate = effectivePersonalTaxRate,
                     sal_results =
                       \<lparr>netPrivatePayout = netSalary,
                        totalTaxPaid = Math_round totalTax,
                        effectiveTaxRate = effectiveRate,
                        retainedInCompany = Math_round (retainedAmount - corporateTaxOnRetained)\<rparr>\<rparr>))"

section \<open>Dividend calculations (calculations/dividendCalculations.js)\<close>




record dividend_tax =
  dt_taxableDividend :: int
  dt_grossedUpDividend :: int
  dt_dividendTax :: int
  dt_netDividend :: int
  dt_effectiveRate :: real

definition calculateDividendTax :: "real \<Rightarrow> real \<Rightarrow> dividend_tax" where
  "calculateDividendTax dividendAmount skjermingsfradrag =
     (let taxableDividend = max 0 (dividendAmount - skjermingsfradrag);
          grossedUpDividend = taxableDividend * DIVIDEND_GROSS_UP_FACTOR;
          dividendTax = grossedUpDividend * PERSONAL_TAX_RATE;
          effectiveRate = (if dividendAmount > 0 then dividendTax / dividendAmount else 0);
          netDividend = dividendAmount - dividendTax
      in \<lparr>dt_taxableDividend = Math_round taxableDividend,
           dt_grossedUpDividend = Math_round grossedUpDividend,
           dt_dividendTax = Math_round dividendTax,
           dt_netDividend = Math_round netDividend,
           dt_effectiveRate = effectiveRate\<rparr>)"



section \<open>Combination and optimisation (calculations/combinationCalculations.js)\<close>

text \<open>
  The bracket loop that \<^verbatim>\<open>calculateCombinationScenario\<close> carries inline: the next
  threshold is read from the entry after the current one, and is \<^verbatim>\<open>Infinity\<close>
  when there is none or when it is falsy (zero).
\<close>

fun trinnskattLoop :: "real \<Rightarrow> bracket list \<Rightarrow> real \<Rightarrow> real" where
  "trinnskattLoop grossSalary [] trinnskatt = trinnskatt"
| "trinnskattLoop grossSalary (b # bs) trinnskatt =
     (if grossSalary > threshold b
      then (let nextThreshold =
                  (case bs of [] \<Rightarrow> None
                   | b' # _ \<Rightarrow> (if threshold b' = 0 then None else Some (threshold b')));
                taxableInBracket = min_next grossSalary nextThreshold - threshold b
            in trinnskattLoop grossSalary bs (trinnskatt + taxableInBracket * rate b))
      else trinnskattLoop grossSalary bs trinnskatt)"

record combination_scenario =
  cmb_retainedAmount :: int
  cmb_retainedAfterTax :: int
  cmb_salaryPortion :: int
  cmb_dividendPortion :: int
  cmb_grossSalary :: int
  cmb_employerAGA :: int
  cmb_pensionContribution :: int
  cmb_corporateTax :: int
  cmb_dividendDistributed :: int
  cmb_trygdeavgift :: int
  cmb_trinnskatt :: int
  cmb_inntektsskatt :: int
  cmb_totalSalaryTax :: int
  cmb_netSalary :: int
  cmb_dividendTax :: int
  cmb_netDividend :: int
  cmb_results :: results

definition calculateCombinationScenario ::
  "real \<Rightarrow> string \<Rightarrow> real \<Rightarrow> 'a options_scheme \<Rightarrow> error + combination_scenario" where
  "calculateCombinationScenario profit zone salaryRatio opts =
     (if salaryRatio < 0 \<or> salaryRatio > 100 then Inl SalaryRatioOutOfRange
      else
        (let retainedAmount = profit * retentionPercentage opts;
             availableForExtraction = profit - retainedAmount;
             salaryPortion = availableForExtraction * (salaryRatio / 100);
             dividendPortion = availableForExtraction - salaryPortion
         in case calculateMaxGrossSalary salaryPortion zone (includePension opts) (pensionRate opts) of
              Inl e \<Rightarrow> Inl e
            | Inr salaryCalc \<Rightarrow>
               (let grossSalary = real_of_int (mg_grossSalary salaryCalc);
                    employerAGA = real_of_int (mg_employerAGA salaryCalc);
                    pensionContribution = real_of_int (mg_pensionContribution salaryCalc);
                    trygdeavgift = grossSalary * SOCIAL_SECURITY_RATES_salary;
                    trinnskatt = trinnskattLoop grossSalary BRACKET_TAX_2025 0;
                    minstefradrag =
                      min (min (max (grossSalary * MINSTEFRADRAG_rate) MINSTEFRADRAG_minimum)
                               MINSTEFRADRAG_maximum)
                          grossSalary;
                    taxable = max 0 (grossSalary - minstefradrag - PERSONFRADRAG);
                    inntektsskatt = taxable * PERSONAL_TAX_RATE;
                    totalSalaryTax = trygdeavgift + trinnskatt + inntektsskatt;
                    netSalary = grossSalary - totalSalaryTax;
                    corporateTaxOnDividend = dividendPortion * CORPORATE_TAX_RATE;
                    dividendAvailable = dividendPortion - corporateTaxOnDividend;
                    corporateTaxOnRetained = retainedAmount * CORPORATE_TAX_RATE;
                    totalCorporateTax = corporateTaxOnDividend + corporateTaxOnRetained;
                    dividendTaxResult = calculateDividendTax dividendAvailable 0;
                    dividendTax = real_of_int (dt_dividendTax dividendTaxResult);
                    netDividend = real_of_int (dt_netDividend dividendTaxResult);
                    totalTax = employerAGA + totalSalaryTax + totalCorporateTax + dividendTax;
                    netPayout = netSalary + netDividend;
                    effectiveRate = (if profit > 0 then totalTax / profit else 0);
                    retainedAfterTax = retainedAmount - corporateTaxOnRetained
                in Inr \<lparr>cmb_retainedAmount = Math_round retainedAmount,
                        cmb_retainedAfterTax = Math_round retainedAfterTax,
                        cmb_salaryPortion = Math_round salaryPortion,
                        cmb_dividendPortion = Math_round dividendPortion,
                        cmb_grossSalary = mg_grossSalary salaryCalc,
                        cmb_employerAGA = Math_round employerAGA,
                        cmb_pensionContribution = Math_round pensionContribution,
                        cmb_corporateTax = Math_round totalCorporateTax,
                        cmb_dividendDistributed = Math_round dividendAvailable,
                        cmb_trygdeavgift = Math_round trygdeavgift,
                        cmb_trinnskatt = Math_round trinnskatt,
                        cmb_inntektsskatt = Math_round inntektsskatt,
                        cmb_totalSalaryTax = Math_round totalSalaryTax,
                        cmb_netSalary = Math_round netSalary,
                        cmb_dividendTax = Math_round dividendTax,
                        cmb_netDividend = Math_round netDividend,
                        cmb_results =
                          \<lparr>netPrivatePayout = Math_round netPayout,
                           totalTaxPaid = Math_round totalTax,
                           effectiveTaxRate = effectiveRate,
                           retainedInCompany = Math_round retainedAfterTax\<rparr>\<rparr>)))"

text \<open>
  \<^verbatim>\<open>findOptimalRatio(profit, zone, options)\<close>. The options carry the search step
  besides the scenario options; the step is a natural number here (the default is 1), and a
  step of zero, with which the source's loop never leaves ratio 0, is the value \<open>None\<close>
  of the loop. \<^verbatim>\<open>optimalTax\<close> starts as \<^verbatim>\<open>Infinity\<close> and is otherwise the
  rounded total tax of a scenario.
\<close>

record search_options = options +
  searchStep :: nat

definition default_search_options :: search_options where
  "default_search_options =
     \<lparr>includePension = False, pensionRate = 0.02, retentionPercentage = 0, shareCostBasis = 0,
      searchStep = 1\<rparr>"

datatype tax_amount = Infinity | Finite int

record search_entry =
  se_salaryRatio :: nat
  se_netPayout :: int
  se_totalTax :: int
  se_effectiveRate :: real

record search_state =
  optimalRatio :: nat
  optimalNetPayout :: int
  optimalTax :: tax_amount
  searchResults :: "search_entry list"

definition initial_search_state :: search_state where
  "initial_search_state =
     \<lparr>optimalRatio = 0, optimalNetPayout = 0, optimalTax = Infinity, searchResults = []\<rparr>"

text \<open>
  One pass of the loop body for a ratio: a scenario that throws is skipped; otherwise its
  entry is appended to the trace and it replaces the best one only when its payout is
  strictly greater.
\<close>

definition searchBody :: "real \<Rightarrow> string \<Rightarrow> search_options \<Rightarrow> nat \<Rightarrow> search_state \<Rightarrow> search_state" where
  "searchBody profit zone opts ratio st =
     (case calculateCombinationScenario profit zone (real ratio) (options.truncate opts) of
        Inl e \<Rightarrow> st
      | Inr scenario \<Rightarrow>
          (let st1 = st\<lparr>searchResults := searchResults st @
                         [\<lparr>se_salaryRatio = ratio,
                           se_netPayout = netPrivatePayout (cmb_results scenario),
                           se_totalTax = totalTaxPaid (cmb_results scenario),
                           se_effectiveRate = effectiveTaxRate (cmb_results scenario)\<rparr>]\<rparr>
           in if netPrivatePayout (cmb_results scenario) > optimalNetPayout st1
              then st1\<lparr>optimalNetPayout := netPrivatePayout (cmb_results scenario),
                        optimalRatio := ratio,
                        optimalTax := Finite (totalTaxPaid (cmb_results scenario))\<rparr>
              else st1))"

function searchLoop ::
  "real \<Rightarrow> string \<Rightarrow> search_options \<Rightarrow> nat \<Rightarrow> search_state \<Rightarrow> search_state option" where
  "searchLoop profit zone opts ratio st =
     (if searchStep opts = 0 then None
      else if ratio \<le> 100
      then searchLoop profit zone opts (ratio + searchStep opts) (searchBody profit zone opts ratio st)
      else Some st)"
  by pat_completeness auto
termination
  by (relation "measure (\<lambda>(profit, zone, opts, ratio, st). 101 - ratio)") auto

declare searchLoop.simps [simp del]

record comparison_entry =
  ce_ratio :: nat
  ce_netPayout :: int
  ce_totalTax :: tax_amount

text \<open>
  The value \<^verbatim>\<open>findOptimalRatio\<close> returns, without the analysis text and without the
  \<^verbatim>\<open>effectiveRate\<close> of the comparison entries (a quotient that is not finite when
  \<^verbatim>\<open>optimalTax\<close> is not).
\<close>

record optimal_result =
  res_optimalRatio :: nat
  res_optimalScenario :: combination_scenario
  res_searchResults :: "search_entry list"
  cmp_optimal :: comparison_entry
  cmp_allSalary :: comparison_entry
  cmp_allDividend :: comparison_entry
  cmp_split5050 :: comparison_entry
  sav_vsAllSalary :: int
  sav_vsAllDividend :: int
  sav_vsSplit5050 :: int

definition findOptimalRatio :: "real \<Rightarrow> string \<Rightarrow> search_options \<Rightarrow> (error + optimal_result) option" where
  "findOptimalRatio profit zone opts =
     (case searchLoop profit zone opts 0 initial_search_state of
        None \<Rightarrow> None
      | Some st \<Rightarrow> Some
         (case calculateCombinationScenario profit zone (real (optimalRatio st)) (options.truncate opts) of
            Inl e \<Rightarrow> Inl e
          | Inr optimalScenario \<Rightarrow>
         (case calculateCombinationScenario profit zone 100 opts of
            Inl e \<Rightarrow> Inl e
          | Inr scenario100Salary \<Rightarrow>
         (case calculateCombinationScenario profit zone 0 opts of
            Inl e \<Rightarrow> Inl e
          | Inr scenario100Dividend \<Rightarrow>
         (case calculateCombinationScenario profit zone 50 opts of
            Inl e \<Rightarrow> Inl e
          | Inr scenario5050 \<Rightarrow>
             Inr \<lparr>res_optimalRatio = optimalRatio st,
                  res_optimalScenario = optimalScenario,
                  res_searchResults = searchResults st,
                  cmp_optimal =
                    \<lparr>ce_ratio = optimalRatio st, ce_netPayout = optimalNetPayout st,
                     ce_totalTax = optimalTax st\<rparr>,
                  cmp_allSalary =
                    \<lparr>ce_ratio = 100,
                     ce_netPayout = netPrivatePayout (cmb_results scenario100Salary),
                     ce_totalTax = Finite (totalTaxPaid (cmb_results scenario100Salary))\<rparr>,
                  cmp_allDividend =
                    \<lparr>ce_ratio = 0,
                     ce_netPayout = netPrivatePayout (cmb_results scenario100Dividend),
                     ce_totalTax = Finite (totalTaxPaid (cmb_results scenario100Dividend))\<rparr>,
                  cmp_split5050 =
                    \<lparr>ce_ratio = 50,
                     ce_netPayout = netPrivatePayout (cmb_results scenario5050),
                     ce_totalTax = Finite (totalTaxPaid (cmb_results scenario5050))\<rparr>,
                  sav_vsAllSalary =
                    optimalNetPayout st - netPrivatePayout (cmb_results scenario100Salary),
                  sav_vsAllDividend =
                    optimalNetPayout st - netPrivatePayout (cmb_results scenario100Dividend),
                  sav_vsSplit5050 =
                    optimalNetPayout st - netPrivatePayout (cmb_results scenario5050)\<rparr>)))))"

section \<open>Double precision\<close>

text \<open>
  The validators compare a computed number with a legal bound, so there the rounding of
  double precision decides, and the model keeps it: a JavaScript number is the real value
  of a double, and the result of an arithmetic operation is the exact result rounded to the
  nearest double, ties to the even mantissa (IEEE 754 binary64, 53 bits of mantissa,
  smallest normal exponent -1022). \<open>to_double\<close> is that rounding; the overflow to
  Infinity beyond the largest double is not modelled, and no operation of the validators
  reaches it. A decimal literal such as \<^verbatim>\<open>0.07\<close> denotes \<open>to_double (7 / 100)\<close>.

  \<open>bit_length n\<close> is the number of binary digits of \<open>n\<close>, and
  \<open>binary_exponent x\<close> the exponent \<open>e\<close> with \<open>2 ^ e \<le> x < 2 ^ (e + 1)\<close> of a
  positive \<open>x\<close>.
\<close>

fun bit_length :: "nat \<Rightarrow> nat" where
  "bit_length n = (if n = 0 then 0 else Suc (bit_length (n div 2)))"

declare bit_length.simps [simp del]

definition binary_exponent :: "real \<Rightarrow> int" where
  "binary_exponent x =
     (if 1 \<le> x then int (bit_length (nat \<lfloor>x\<rfloor>)) - 1
      else - int (bit_length (nat (\<lceil>1 / x\<rceil> - 1))))"

definition round_half_even :: "real \<Rightarrow> int" where
  "round_half_even q =
     (let n = \<lfloor>q\<rfloor>; d = q - real_of_int n
      in if d < 1 / 2 then n else if d > 1 / 2 then n + 1 else if even n then n else n + 1)"

definition to_double :: "real \<Rightarrow> real" where
  "to_double x =
     (if x = 0 then 0
      else (let k = max (binary_exponent \<bar>x\<bar>) (- 1022) - 52
            in if 0 \<le> k
               then sgn x * (real_of_int (round_half_even (\<bar>x\<bar> / 2 ^ nat k)) * 2 ^ nat k)
               else sgn x * (real_of_int (round_half_even (\<bar>x\<bar> * 2 ^ nat (- k))) / 2 ^ nat (- k))))"

section \<open>Input validation (validation/inputValidation.js)\<close>

text \<open>
  The validators take untyped JavaScript values. A raw value is undefined, null, a boolean,
  a number, NaN, a string or a plain object (a list of named properties). The conversions
  of strings to numbers (\<^verbatim>\<open>Number(s)\<close>) and of numbers to strings
  (\<^verbatim>\<open>String(n)\<close>) belong to the language, not to the repository: they are
  parameters of the model, collected in \<open>js_conv\<close>, and every statement holds for all of
  them. \<open>None\<close> stands for NaN.

  The messages are the source's, with the Norwegian letters written in ASCII
  (a for a-ring, o for o-slash, ae for the ligature) and the no-break spaces of
  \<^verbatim>\<open>toLocaleString('nb-NO')\<close> as spaces.
\<close>

datatype jsval =
    JUndefined
  | JNull
  | JBool bool
  | JNum real
  | JNaN
  | JStr string
  | JObj "(string \<times> jsval) list"

record js_conv =
  Number_of_string :: "string \<Rightarrow> real option"
  String_of_number :: "real \<Rightarrow> string"

fun Number :: "js_conv \<Rightarrow> jsval \<Rightarrow> real option" where
  "Number cv JUndefined = None"
| "Number cv JNull = Some 0"
| "Number cv (JBool b) = Some (if b then 1 else 0)"
| "Number cv (JNum r) = Some r"
| "Number cv JNaN = None"
| "Number cv (JStr s) = Number_of_string cv s"
| "Number cv (JObj fs) = None"


text \<open>Truthiness (\<^verbatim>\<open>!v\<close> is its negation) and property access \<^verbatim>\<open>v.name\<close>
  on a value that is neither undefined nor null.\<close>

fun truthy :: "jsval \<Rightarrow> bool" where
  "truthy JUndefined = False"
| "truthy JNull = False"
| "truthy (JBool b) = b"
| "truthy (JNum r) = (r \<noteq> 0)"
| "truthy JNaN = False"
| "truthy (JStr s) = (s \<noteq> [])"
| "truthy (JObj fs) = True"

fun get_field :: "jsval \<Rightarrow> string \<Rightarrow> jsval" where
  "get_field (JObj fs) name = (case map_of fs name of None \<Rightarrow> JUndefined | Some v \<Rightarrow> v)"
| "get_field v name = JUndefined"


record 'a field_result =
  isValid :: bool
  errors :: "string list"
  fr_value :: "'a option"

definition invalid :: "string \<Rightarrow> 'a field_result" where
  "invalid msg = \<lparr>isValid = False, errors = [msg], fr_value = None\<rparr>"

definition valid :: "'a \<Rightarrow> 'a field_result" where
  "valid v = \<lparr>isValid = True, errors = [], fr_value = Some v\<rparr>"







text \<open>
  \<^verbatim>\<open>!strategy || typeof strategy !== 'object'\<close> holds for every value but an object
  (null is falsy). A failing salary ratio returns the percentage validator's own result
  (\<open>as_failure\<close>: the same validity and messages, the value null); an accepted one
  always carries a number.
\<close>

definition as_failure :: "'a field_result \<Rightarrow> 'b field_result" where
  "as_failure r = \<lparr>isValid = isValid r, errors = errors r, fr_value = None\<rparr>"


text \<open>
  The pension rate is read through the numeric conversion in every comparison and product;
  the value returned for a rate taken as a fraction is the raw \<^verbatim>\<open>rate\<close> itself.
\<close>

record pension_value =
  pv_enabled :: bool
  pv_rate :: jsval

definition validatePensionSettings :: "js_conv \<Rightarrow> jsval \<Rightarrow> pension_value field_result" where
  "validatePensionSettings cv pensionSettings =
     (if \<not> truthy pensionSettings \<or> get_field pensionSettings ''enabled'' = JBool False
      then valid \<lparr>pv_enabled = False, pv_rate = JNum 0\<rparr>
      else if get_field pensionSettings ''enabled'' = JBool True
      then (let rate = get_field pensionSettings ''rate'';
                isDecimal = (case Number cv rate of None \<Rightarrow> False | Some x \<Rightarrow> x > 0 \<and> x < 1);
                rateAsPercentage =
                  (if isDecimal then map_option (\<lambda>x. to_double (x * 100)) (Number cv rate)
                   else Number cv rate)
            in case rateAsPercentage of
                 None \<Rightarrow> invalid ''Pensjonssats ma vaere et tall (Pension rate must be a number)''
               | Some pct \<Rightarrow>
                   if pct < 2
                   then invalid (''Pensjonssats ma vaere minst 2% (OTP minimum) '' @
                                 ''(Pension rate must be at least 2%)'')
                   else if pct > 7
                   then invalid (''Pensjonssats over 7% er ikke fradragsberettiget '' @
                                 ''(Pension rate above 7% is not tax-deductible)'')
                   else valid \<lparr>pv_enabled = True,
                               pv_rate = (if isDecimal then rate else JNum (to_double (pct / 100)))\<rparr>)
      else invalid ''Ugyldig pensjonsinnstilling (Invalid pension setting)'')"









section \<open>Quantities named in the statements\<close>


text \<open>The personal tax of the salary scenario, as a function of the rounded gross salary.\<close>

definition totalPersonalTax_of :: "int \<Rightarrow> int" where
  "totalPersonalTax_of g =
     contribution (calculateSocialSecurityContribution (real_of_int g))
     + totalBracketTax (calculateBracketTax (real_of_int g))
     + incomeTax (calculateIncomeTax (real_of_int g))"

text \<open>The salary tax of the combination scenario, as a function of the gross salary.\<close>

definition totalSalaryTax_of :: "real \<Rightarrow> real" where
  "totalSalaryTax_of g =
     g * SOCIAL_SECURITY_RATES_salary + trinnskattLoop g BRACKET_TAX_2025 0
     + max 0 (g - min (min (max (g * MINSTEFRADRAG_rate) MINSTEFRADRAG_minimum)
                            MINSTEFRADRAG_maximum) g - PERSONFRADRAG) * PERSONAL_TAX_RATE"



definition clampLen :: "real \<Rightarrow> real \<Rightarrow> real \<Rightarrow> real" where
  "clampLen lo hi g = max lo (min g hi) - lo"


text \<open>
  The net private payout and the total tax of the combination scenario at an integer salary
  ratio (the scenario is a result, not an exception, for a valid zone and a ratio up to
  100), and the invariant of the search loop after the ratios below \<open>n\<close>: the best payout
  bounds every payout seen, and either nothing positive was seen and the state is the
  initial one, or the best ratio is the first one that reached the best payout.
\<close>

definition payoutAt :: "real \<Rightarrow> string \<Rightarrow> 'a options_scheme \<Rightarrow> nat \<Rightarrow> int" where
  "payoutAt profit zone opts k =
     netPrivatePayout (cmb_results (projr (calculateCombinationScenario profit zone (real k) opts)))"

definition taxAt :: "real \<Rightarrow> string \<Rightarrow> 'a options_scheme \<Rightarrow> nat \<Rightarrow> int" where
  "taxAt profit zone opts k =
     totalTaxPaid (cmb_results (projr (calculateCombinationScenario profit zone (real k) opts)))"


section \<open>Properties\<close>

subsection \<open>Rounding and the rate table\<close>

lemma Math_round_of_int: "Math_round (real_of_int n) = n"
  by (simp add: Math_round_def)




lemma Math_round_mono: "x \<le> y \<Longrightarrow> Math_round x \<le> Math_round y"
  unfolding Math_round_def by (simp add: floor_mono)

lemma zone_rate_bounds:
  "EMPLOYER_SOCIAL_SECURITY_RATES zone = Some a \<Longrightarrow> 0 \<le> a \<and> a \<le> 0.141"
  by (auto simp: EMPLOYER_SOCIAL_SECURITY_RATES_def EMPLOYER_SOCIAL_SECURITY_RATES_table_def
           split: if_splits)

lemma zone_1: "EMPLOYER_SOCIAL_SECURITY_RATES ''1'' = Some 0.141"
  by (simp add: EMPLOYER_SOCIAL_SECURITY_RATES_def EMPLOYER_SOCIAL_SECURITY_RATES_table_def)

lemma zone_5: "EMPLOYER_SOCIAL_SECURITY_RATES ''5'' = Some 0"
  by (simp add: EMPLOYER_SOCIAL_SECURITY_RATES_def EMPLOYER_SOCIAL_SECURITY_RATES_table_def)

subsection \<open>Gross salary in a zone without employer contribution\<close>

text \<open>
  C9, as the code has it. Without pension and in zone 5, whose employer contribution rate
  is zero, \<^verbatim>\<open>calculateMaxGrossSalary\<close> returns the budget rounded to the nearest
  whole unit as gross salary; the gross salary equals the budget exactly when the budget is
  a whole number.
\<close>

theorem C9_zone5_gross_salary_is_rounded_budget:
  "\<exists>res. calculateMaxGrossSalary budget ''5'' False r = Inr res
      \<and> mg_grossSalary res = Math_round budget
      \<and> (budget \<in> \<int> \<longrightarrow> real_of_int (mg_grossSalary res) = budget)
      \<and> (real_of_int (mg_grossSalary res) = budget \<longrightarrow> budget \<in> \<int>)"
proof -
  have "real_of_int (Math_round budget) = budget \<Longrightarrow> budget \<in> \<int>"
    by (metis Ints_of_int)
  then show ?thesis
    by (auto simp: calculateMaxGrossSalary_def zone_5 Let_def Math_round_of_int elim!: Ints_cases)
qed

theorem C9_zone5_witness:
  "(1000::real) \<in> \<int>
   \<and> (\<exists>res. calculateMaxGrossSalary 1000 ''5'' False OTP_MIN_RATE = Inr res
         \<and> mg_grossSalary res = Math_round 1000
         \<and> real_of_int (mg_grossSalary res) = 1000)"
  using C9_zone5_gross_salary_is_rounded_budget [of 1000 OTP_MIN_RATE] by auto

text \<open>
  The claim as the specification states it (gross salary equal to the budget for every
  non-negative budget) fails for a budget of half a unit: the gross salary is 1.
\<close>

theorem C9_fractional_budget_counterexample:
  "\<not> isl (calculateMaxGrossSalary (1 / 2) ''5'' False OTP_MIN_RATE)
   \<and> mg_grossSalary (projr (calculateMaxGrossSalary (1 / 2) ''5'' False OTP_MIN_RATE)) = 1
   \<and> real_of_int (mg_grossSalary (projr (calculateMaxGrossSalary (1 / 2) ''5'' False OTP_MIN_RATE)))
       \<noteq> 1 / 2"
  by (simp add: calculateMaxGrossSalary_def zone_5 Let_def Math_round_def)

subsection \<open>Reconciliation of the scenario totals\<close>


lemma salary_results_shape:
  assumes "calculateMaxGrossSalary (profit - profit * retentionPercentage opts) zone
             (includePension opts) (pensionRate opts) = Inr m"
  shows "\<exists>s. calculateSalaryScenario profit zone opts = Inr s
           \<and> netPrivatePayout (sal_results s) = mg_grossSalary m - totalPersonalTax_of (mg_grossSalary m)
           \<and> totalTaxPaid (sal_results s) =
               Math_round (real_of_int (mg_employerAGA m)
                  + real_of_int (totalPersonalTax_of (mg_grossSalary m))
                  + profit * retentionPercentage opts * CORPORATE_TAX_RATE)
           \<and> retainedInCompany (sal_results s) =
               Math_round (profit * retentionPercentage opts
                            - profit * retentionPercentage opts * CORPORATE_TAX_RATE)"
  unfolding calculateSalaryScenario_def Let_def totalPersonalTax_of_def
  by (simp add: assms)



lemma dividend_tax_shape:
  "dt_dividendTax (calculateDividendTax d sk) =
     Math_round (max 0 (d - sk) * DIVIDEND_GROSS_UP_FACTOR * PERSONAL_TAX_RATE)
   \<and> dt_netDividend (calculateDividendTax d sk) =
     Math_round (d - max 0 (d - sk) * DIVIDEND_GROSS_UP_FACTOR * PERSONAL_TAX_RATE)"
  unfolding calculateDividendTax_def Let_def by simp


lemma combination_results_shape:
  assumes ok: "0 \<le> ratio" "ratio \<le> 100"
    and m: "calculateMaxGrossSalary ((profit - profit * retentionPercentage opts) * (ratio / 100)) zone
             (includePension opts) (pensionRate opts) = Inr m"
  shows "\<exists>s. calculateCombinationScenario profit zone ratio opts = Inr s
     \<and> netPrivatePayout (cmb_results s) =
         Math_round (real_of_int (mg_grossSalary m) - totalSalaryTax_of (real_of_int (mg_grossSalary m))
           + real_of_int (dt_netDividend (calculateDividendTax
               (((profit - profit * retentionPercentage opts)
                   - (profit - profit * retentionPercentage opts) * (ratio / 100))
                - ((profit - profit * retentionPercentage opts)
                   - (profit - profit * retentionPercentage opts) * (ratio / 100)) * CORPORATE_TAX_RATE) 0)))
     \<and> totalTaxPaid (cmb_results s) =
         Math_round (real_of_int (mg_employerAGA m) + totalSalaryTax_of (real_of_int (mg_grossSalary m))
           + (((profit - profit * retentionPercentage opts)
                   - (profit - profit * retentionPercentage opts) * (ratio / 100)) * CORPORATE_TAX_RATE
              + profit * retentionPercentage opts * CORPORATE_TAX_RATE)
           + real_of_int (dt_dividendTax (calculateDividendTax
               (((profit - profit * retentionPercentage opts)
                   - (profit - profit * retentionPercentage opts) * (ratio / 100))
                - ((profit - profit * retentionPercentage opts)
                   - (profit - profit * retentionPercentage opts) * (ratio / 100)) * CORPORATE_TAX_RATE) 0)))
     \<and> retainedInCompany (cmb_results s) =
         Math_round (profit * retentionPercentage opts
                      - profit * retentionPercentage opts * CORPORATE_TAX_RATE)"
  unfolding calculateCombinationScenario_def Let_def totalSalaryTax_of_def
  using ok m by simp










subsection \<open>Bracket tax: monotone and without jumps\<close>






lemma clampLen_chain:
  "lo \<le> mid \<Longrightarrow> mid \<le> hi \<Longrightarrow> clampLen lo mid g + clampLen mid hi g = clampLen lo hi g"
  by (simp add: clampLen_def min_def max_def)













subsection \<open>The combination scenario and its salary ratio\<close>

text \<open>
  C7. \<^verbatim>\<open>calculateCombinationScenario\<close> throws its ratio error for every salary
  ratio outside [0, 100], whatever the other arguments; and with a valid zone it throws if
  and only if the ratio is outside [0, 100], so that every ratio inside the interval
  together with a valid zone returns a scenario. (With a ratio inside the interval an
  unknown zone is the only other cause of an exception.)
\<close>

theorem C7_combination_throws_iff_ratio_out_of_range:
  "(salaryRatio < 0 \<or> salaryRatio > 100 \<longrightarrow>
       calculateCombinationScenario profit zone salaryRatio opts = Inl SalaryRatioOutOfRange)
   \<and> (EMPLOYER_SOCIAL_SECURITY_RATES zone \<noteq> None \<longrightarrow>
       (isl (calculateCombinationScenario profit zone salaryRatio opts)
          \<longleftrightarrow> salaryRatio < 0 \<or> salaryRatio > 100))"
  by (auto simp: calculateCombinationScenario_def calculateMaxGrossSalary_def Let_def)

theorem C7_combination_witness:
  "(150::real) > 100
   \<and> calculateCombinationScenario 1000000 ''1'' 150 default_options = Inl SalaryRatioOutOfRange
   \<and> EMPLOYER_SOCIAL_SECURITY_RATES ''1'' = Some 0.141
   \<and> (0::real) \<le> 50 \<and> (50::real) \<le> 100
   \<and> isl (calculateCombinationScenario 1000000 ''1'' 50 default_options) = False"
  using C7_combination_throws_iff_ratio_out_of_range [of 150 1000000 "''1''" default_options]
    C7_combination_throws_iff_ratio_out_of_range [of 50 1000000 "''1''" default_options]
  by (simp add: zone_1)

subsection \<open>Validation: every error is collected\<close>

lemma invalid_simps [simp]: "isValid (invalid m) = False" "errors (invalid m) = [m]"
  "fr_value (invalid m) = None"
  by (simp_all add: invalid_def)

lemma valid_simps [simp]: "isValid (valid v) = True" "errors (valid v) = []"
  "fr_value (valid v) = Some v"
  by (simp_all add: valid_def)




lemma as_failure_simps [simp]: "isValid (as_failure r) = isValid r"
  "errors (as_failure r) = errors r" "fr_value (as_failure r) = None"
  by (simp_all add: as_failure_def)









subsection \<open>Double precision rounding\<close>

text \<open>
  The exponent is the right one, and the rounding gives the known values of the doubles
  nearest to 0.1, 0.2 and 0.3 and of their sum: 0.1 + 0.2 is 0.30000000000000004, not 0.3.
\<close>

lemma bit_length_numeral [simp]:
  "bit_length 0 = 0"
  "bit_length (Suc 0) = 1"
  "bit_length (numeral Num.One) = 1"
  "bit_length (numeral (Num.Bit0 k)) = Suc (bit_length (numeral k))"
  "bit_length (numeral (Num.Bit1 k)) = Suc (bit_length (numeral k))"
proof -
  show "bit_length 0 = 0" "bit_length (Suc 0) = 1" "bit_length (numeral Num.One) = 1"
    by (simp_all add: bit_length.simps [of 0] bit_length.simps [of "Suc 0"] bit_length.simps [of 1])
  show "bit_length (numeral (Num.Bit0 k)) = Suc (bit_length (numeral k))"
    by (subst bit_length.simps) simp
  show "bit_length (numeral (Num.Bit1 k)) = Suc (bit_length (numeral k))"
    by (subst bit_length.simps) simp
qed

lemma bit_length_pos: "0 < n \<Longrightarrow> bit_length n = Suc (bit_length (n div 2))"
  by (subst bit_length.simps) simp

lemma bit_length_bounds: "0 < n \<Longrightarrow> 2 ^ (bit_length n - 1) \<le> n \<and> n < 2 ^ bit_length n"
proof (induction n rule: less_induct)
  case (less n)
  show ?case
  proof (cases "n div 2 = 0")
    case True
    with less.prems have "n = 1" by presburger
    then show ?thesis by (simp add: bit_length.simps [of "Suc 0"] bit_length.simps [of 0])
  next
    case False
    then have pos: "0 < n div 2" by simp
    have lt: "n div 2 < n" using less.prems by simp
    have ih: "2 ^ (bit_length (n div 2) - 1) \<le> n div 2" "n div 2 < 2 ^ bit_length (n div 2)"
      using less.IH [OF lt pos] by simp_all
    obtain b where b: "bit_length (n div 2) = Suc b"
      using bit_length_pos [OF pos] by simp
    have bl: "bit_length n = Suc (Suc b)"
      using bit_length_pos [OF less.prems] b by simp
    from ih have "2 ^ b \<le> n div 2" "n div 2 < 2 * 2 ^ b" unfolding b by simp_all
    then have "2 * 2 ^ b \<le> n" "n < 2 * (2 * 2 ^ b)" by presburger+
    then show ?thesis unfolding bl by simp
  qed
qed

lemma bit_length_real_bounds:
  assumes "0 < n"
  obtains b where "bit_length n = Suc b" "(2::real) ^ b \<le> real n" "real n + 1 \<le> 2 ^ Suc b"
proof -
  obtain b where b: "bit_length n = Suc b"
    using bit_length_pos [OF assms] by simp
  have nb: "2 ^ b \<le> n" "Suc n \<le> 2 ^ Suc b"
    using bit_length_bounds [OF assms] unfolding b by simp_all
  have "(2::real) ^ b \<le> real n"
    using of_nat_mono [OF nb(1), where 'a = real] by simp
  moreover have "real n + 1 \<le> 2 ^ Suc b"
    using of_nat_mono [OF nb(2), where 'a = real] by simp
  ultimately show ?thesis using b that by blast
qed

lemma binary_exponent_bounds:
  assumes "0 < x"
  shows "2 powi binary_exponent x \<le> x \<and> x < 2 powi (binary_exponent x + 1)"
proof (cases "1 \<le> x")
  case True
  define n where "n = nat \<lfloor>x\<rfloor>"
  have "1 \<le> \<lfloor>x\<rfloor>" using True by linarith
  then have n0: "0 < n" and rn: "real n = real_of_int \<lfloor>x\<rfloor>" unfolding n_def by simp_all
  have n: "real n \<le> x" "x < real n + 1" unfolding rn by linarith+
  obtain b where b: "bit_length n = Suc b" "(2::real) ^ b \<le> real n" "real n + 1 \<le> 2 ^ Suc b"
    using bit_length_real_bounds [OF n0] by blast
  have e: "binary_exponent x = int b"
    using True by (simp add: binary_exponent_def n_def [symmetric] b)
  have "(2::real) ^ b \<le> x" "x < 2 ^ Suc b" using n b by linarith+
  then show ?thesis
    unfolding e by (simp add: power_int_add)
next
  case False
  then have x1: "x < 1" by simp
  define n where "n = nat (\<lceil>1 / x\<rceil> - 1)"
  have "1 < 1 / x" using assms x1 by simp
  then have c2: "2 \<le> \<lceil>1 / x\<rceil>" by linarith
  have n0: "0 < n" unfolding n_def using c2 by linarith
  have "int n = \<lceil>1 / x\<rceil> - 1" unfolding n_def using c2 by linarith
  then have rn: "real n = real_of_int \<lceil>1 / x\<rceil> - 1"
    by (metis of_int_1 of_int_diff of_int_of_nat_eq)
  have n: "real n < 1 / x" "1 / x \<le> real n + 1" unfolding rn by linarith+
  obtain b where b: "bit_length n = Suc b" "(2::real) ^ b \<le> real n" "real n + 1 \<le> 2 ^ Suc b"
    using bit_length_real_bounds [OF n0] by blast
  have e: "binary_exponent x = - int (Suc b)"
    using False by (simp add: binary_exponent_def n_def [symmetric] b)
  have lo: "1 / x \<le> 2 ^ Suc b" and hi: "(2::real) ^ b < 1 / x" using n b by linarith+
  have "1 / 2 ^ Suc b \<le> x"
    using lo assms by (simp add: field_simps)
  moreover have "x < 1 / 2 ^ b"
    using hi assms by (simp add: field_simps)
  moreover have "(2::real) powi (- int (Suc b)) = 1 / 2 ^ Suc b"
    by (simp only: power_int_minus power_int_of_nat inverse_eq_divide)
  moreover have "- int (Suc b) + 1 = - int b" by simp
  then have "(2::real) powi (- int (Suc b) + 1) = 1 / 2 ^ b"
    by (simp only: power_int_minus power_int_of_nat inverse_eq_divide)
  ultimately show ?thesis unfolding e by (simp only: simp_thms)
qed

lemma double_known_values:
  "to_double (1 / 10) = 3602879701896397 / 2 ^ 55"
  "to_double (2 / 10) = 3602879701896397 / 2 ^ 54"
  "to_double (3 / 10) = 5404319552844595 / 2 ^ 54"
  "to_double (1 / 2) = 1 / 2"
  "to_double 100 = 100"
  by (simp_all add: to_double_def binary_exponent_def round_half_even_def Let_def)

lemma double_sum_known_value:
  "to_double (to_double (1 / 10) + to_double (2 / 10)) = 1351079888211149 / 2 ^ 52"
  "to_double (to_double (1 / 10) + to_double (2 / 10)) \<noteq> to_double (3 / 10)"
proof -
  show "to_double (to_double (1 / 10) + to_double (2 / 10)) = 1351079888211149 / 2 ^ 52"
    unfolding double_known_values
    by (simp add: to_double_def binary_exponent_def round_half_even_def Let_def)
  then show "to_double (to_double (1 / 10) + to_double (2 / 10)) \<noteq> to_double (3 / 10)"
    unfolding double_known_values by simp
qed

subsection \<open>Validation: the pension rate\<close>

lemma double_of_seven_hundredths: "to_double (7 / 100) = 5044031582654956 / 2 ^ 56"
  by (simp add: to_double_def binary_exponent_def round_half_even_def Let_def)

lemma seven_hundredths_times_100:
  "to_double (to_double (7 / 100) * 100) = 7881299347898369 / 2 ^ 50"
  unfolding double_of_seven_hundredths
  by (simp add: to_double_def binary_exponent_def round_half_even_def Let_def)

text \<open>
  C8 at the failing input. The rate 0.07, the documented upper bound in fractional form,
  is rejected: it is taken as a fraction, and its product with 100 in double precision is
  7.000000000000001, above 7.
\<close>

theorem C8_pension_rate_upper_bound_rejected:
  "validatePensionSettings cv (JObj [(''enabled'', JBool True), (''rate'', JNum (to_double (7 / 100)))])
     = invalid (''Pensjonssats over 7% er ikke fradragsberettiget '' @
                ''(Pension rate above 7% is not tax-deductible)'')
   \<and> to_double (to_double (7 / 100) * 100) > 7"
proof -
  have r: "0 < to_double (7 / 100)" "to_double (7 / 100) < 1"
    unfolding double_of_seven_hundredths by simp_all
  have p: "\<not> to_double (to_double (7 / 100) * 100) < 2" "to_double (to_double (7 / 100) * 100) > 7"
    unfolding seven_hundredths_times_100 by simp_all
  show ?thesis
    using r p by (simp add: validatePensionSettings_def Let_def)
qed

theorem C8_pension_rate_witness:
  "isValid (validatePensionSettings
              \<lparr>Number_of_string = (\<lambda>s. None), String_of_number = (\<lambda>r. ''0'')\<rparr>
              (JObj [(''enabled'', JBool True), (''rate'', JNum (to_double (7 / 100)))])) = False
   \<and> errors (validatePensionSettings
              \<lparr>Number_of_string = (\<lambda>s. None), String_of_number = (\<lambda>r. ''0'')\<rparr>
              (JObj [(''enabled'', JBool True), (''rate'', JNum (to_double (7 / 100)))]))
       = [''Pensjonssats over 7% er ikke fradragsberettiget '' @
          ''(Pension rate above 7% is not tax-deductible)'']"
  using C8_pension_rate_upper_bound_rejected
          [of "\<lparr>Number_of_string = (\<lambda>s. None), String_of_number = (\<lambda>r. ''0'')\<rparr>"]
  by simp

text \<open>The same rate written as a whole percentage is accepted and normalised.\<close>

lemma pension_seven_percent_accepted:
  "validatePensionSettings cv (JObj [(''enabled'', JBool True), (''rate'', JNum 7)])
     = valid \<lparr>pv_enabled = True, pv_rate = JNum (to_double (7 / 100))\<rparr>"
  by (simp add: validatePensionSettings_def Let_def)

subsection \<open>The search for the optimal ratio\<close>

lemma combination_truncate:
  "calculateCombinationScenario profit zone ratio (options.truncate opts)
     = calculateCombinationScenario profit zone ratio opts"
  unfolding calculateCombinationScenario_def options.truncate_def
  by (simp only: options.select_convs)

lemma max_gross_returns:
  "EMPLOYER_SOCIAL_SECURITY_RATES zone = Some a
     \<Longrightarrow> \<exists>m. calculateMaxGrossSalary x zone ip pr = Inr m"
  by (simp add: calculateMaxGrossSalary_def Let_def)

lemma combination_returns:
  assumes "EMPLOYER_SOCIAL_SECURITY_RATES zone = Some a" "0 \<le> ratio" "ratio \<le> 100"
  shows "\<exists>s. calculateCombinationScenario profit zone ratio opts = Inr s"
proof -
  obtain m where m: "calculateMaxGrossSalary
       ((profit - profit * retentionPercentage opts) * (ratio / 100)) zone
       (includePension opts) (pensionRate opts) = Inr m"
    using max_gross_returns [OF assms(1)] by blast
  have g: "(ratio < 0 \<or> ratio > 100) = False" using assms by simp
  show ?thesis
    unfolding calculateCombinationScenario_def Let_def
    by (simp only: g if_False m sum.case) blast
qed

lemma searchBody_valid:
  assumes z: "EMPLOYER_SOCIAL_SECURITY_RATES zone = Some a" and k: "k \<le> 100"
  shows "optimalNetPayout (searchBody profit zone opts k st) =
           (if payoutAt profit zone opts k > optimalNetPayout st
            then payoutAt profit zone opts k else optimalNetPayout st)"
    and "optimalRatio (searchBody profit zone opts k st) =
           (if payoutAt profit zone opts k > optimalNetPayout st then k else optimalRatio st)"
    and "optimalTax (searchBody profit zone opts k st) =
           (if payoutAt profit zone opts k > optimalNetPayout st
            then Finite (taxAt profit zone opts k) else optimalTax st)"
proof -
  obtain s where s: "calculateCombinationScenario profit zone (real k) opts = Inr s"
    using combination_returns [OF z, of "real k" profit opts] k by auto
  show "optimalNetPayout (searchBody profit zone opts k st) =
           (if payoutAt profit zone opts k > optimalNetPayout st
            then payoutAt profit zone opts k else optimalNetPayout st)"
    and "optimalRatio (searchBody profit zone opts k st) =
           (if payoutAt profit zone opts k > optimalNetPayout st then k else optimalRatio st)"
    and "optimalTax (searchBody profit zone opts k st) =
           (if payoutAt profit zone opts k > optimalNetPayout st
            then Finite (taxAt profit zone opts k) else optimalTax st)"
    by (simp_all add: searchBody_def combination_truncate s payoutAt_def taxAt_def Let_def)
qed





lemma searchLoop_no_positive:
  assumes z: "EMPLOYER_SOCIAL_SECURITY_RATES zone = Some a" and pos: "0 < searchStep opts"
    and np: "\<forall>k\<le>100. searchStep opts dvd k \<longrightarrow> payoutAt profit zone opts k \<le> 0"
  shows "searchStep opts dvd n \<Longrightarrow> optimalNetPayout st = 0 \<Longrightarrow> optimalRatio st = 0
     \<Longrightarrow> optimalTax st = Infinity
     \<Longrightarrow> \<exists>st'. searchLoop profit zone opts n st = Some st'
            \<and> optimalNetPayout st' = 0 \<and> optimalRatio st' = 0 \<and> optimalTax st' = Infinity"
proof (induction "101 - n" arbitrary: n st rule: less_induct)
  case less
  show ?case
  proof (cases "n \<le> 100")
    case False
    with pos less.prems show ?thesis by (subst searchLoop.simps) simp
  next
    case True
    have le: "\<not> payoutAt profit zone opts n > optimalNetPayout st"
      using np True less.prems by auto
    let ?st = "searchBody profit zone opts n st"
    have b: "optimalNetPayout ?st = 0" "optimalRatio ?st = 0" "optimalTax ?st = Infinity"
      using le less.prems by (simp_all add: searchBody_valid [OF z True])
    have "101 - (n + searchStep opts) < 101 - n" using True pos by simp
    moreover have "searchStep opts dvd n + searchStep opts" using less.prems(1) by simp
    ultimately obtain st' where "searchLoop profit zone opts (n + searchStep opts) ?st = Some st'"
      "optimalNetPayout st' = 0" "optimalRatio st' = 0" "optimalTax st' = Infinity"
      using less.hyps b by blast
    then show ?thesis
      using True pos by (subst searchLoop.simps) simp
  qed
qed

lemma findOptimalRatio_result:
  assumes z: "EMPLOYER_SOCIAL_SECURITY_RATES zone = Some a"
    and l: "searchLoop profit zone opts 0 initial_search_state = Some st"
    and r: "optimalRatio st \<le> 100"
  shows "\<exists>res. findOptimalRatio profit zone opts = Some (Inr res)
     \<and> res_optimalRatio res = optimalRatio st
     \<and> netPrivatePayout (cmb_results (res_optimalScenario res))
         = payoutAt profit zone opts (optimalRatio st)
     \<and> totalTaxPaid (cmb_results (res_optimalScenario res))
         = taxAt profit zone opts (optimalRatio st)
     \<and> res_searchResults res = searchResults st
     \<and> ce_netPayout (cmp_optimal res) = optimalNetPayout st
     \<and> ce_totalTax (cmp_optimal res) = optimalTax st
     \<and> ce_netPayout (cmp_allSalary res) = payoutAt profit zone opts 100
     \<and> ce_netPayout (cmp_allDividend res) = payoutAt profit zone opts 0
     \<and> ce_netPayout (cmp_split5050 res) = payoutAt profit zone opts 50"
proof -
  obtain so where so: "calculateCombinationScenario profit zone (real (optimalRatio st)) opts = Inr so"
    using combination_returns [OF z, of "real (optimalRatio st)" profit opts] r by auto
  obtain s100 where s100: "calculateCombinationScenario profit zone 100 opts = Inr s100"
    using combination_returns [OF z, of 100 profit opts] by auto
  obtain s0 where s0: "calculateCombinationScenario profit zone 0 opts = Inr s0"
    using combination_returns [OF z, of 0 profit opts] by auto
  obtain s50 where s50: "calculateCombinationScenario profit zone 50 opts = Inr s50"
    using combination_returns [OF z, of 50 profit opts] by auto
  show ?thesis
    using s100 s0 s50
    by (simp add: findOptimalRatio_def l combination_truncate so payoutAt_def taxAt_def)
qed



lemma trinnskatt_below_first_threshold:
  "g \<le> 217400 \<Longrightarrow> trinnskattLoop g BRACKET_TAX_2025 0 = 0"
  by (simp add: BRACKET_TAX_2025_def)






lemma max_gross_value:
  assumes "EMPLOYER_SOCIAL_SECURITY_RATES zone = Some a"
    and "calculateMaxGrossSalary x zone False pr = Inr m"
  shows "mg_grossSalary m = Math_round (x / (1 + a))"
  using assms by (auto simp: calculateMaxGrossSalary_def Let_def)

lemma salary_tax_of_nonpositive:
  assumes "g \<le> 0"
  shows "g - totalSalaryTax_of g \<le> 0"
proof -
  have "min (min (max (g * MINSTEFRADRAG_rate) MINSTEFRADRAG_minimum) MINSTEFRADRAG_maximum) g = g"
    using assms
    by (simp add: MINSTEFRADRAG_rate_def MINSTEFRADRAG_minimum_def MINSTEFRADRAG_maximum_def
          min_def max_def)
  moreover have "trinnskattLoop g BRACKET_TAX_2025 0 = 0"
    using assms by (simp add: trinnskatt_below_first_threshold)
  ultimately have "totalSalaryTax_of g = g * SOCIAL_SECURITY_RATES_salary"
    by (simp add: totalSalaryTax_of_def PERSONFRADRAG_def)
  then show ?thesis
    using assms by (simp add: SOCIAL_SECURITY_RATES_salary_def)
qed

lemma payout_nonpositive:
  assumes z: "EMPLOYER_SOCIAL_SECURITY_RATES zone = Some a" and np: "\<not> includePension opts"
    and k: "k \<le> 100"
    and av: "profit - profit * retentionPercentage opts \<le> 0"
  shows "payoutAt profit zone opts k \<le> 0"
proof -
  define avail where "avail = profit - profit * retentionPercentage opts"
  define SP where "SP = avail * (real k / 100)"
  define D where "D = (avail - SP) - (avail - SP) * CORPORATE_TAX_RATE"
  have a: "0 \<le> a" using zone_rate_bounds [OF z] by simp
  obtain m where m: "calculateMaxGrossSalary SP zone (includePension opts) (pensionRate opts) = Inr m"
    using max_gross_returns [OF z] by blast
  have ok: "0 \<le> real k" "real k \<le> 100" using k by simp_all
  obtain s where s: "calculateCombinationScenario profit zone (real k) opts = Inr s"
    and n: "netPrivatePayout (cmb_results s) =
         Math_round (real_of_int (mg_grossSalary m) - totalSalaryTax_of (real_of_int (mg_grossSalary m))
           + real_of_int (dt_netDividend (calculateDividendTax D 0)))"
    using combination_results_shape [OF ok m [unfolded SP_def avail_def]]
    unfolding D_def SP_def avail_def by blast
  have "SP \<le> 0"
    unfolding SP_def using av ok by (simp add: avail_def mult_le_0_iff)
  then have "SP / (1 + a) \<le> 0" using a by (simp add: divide_le_0_iff)
  then have "Math_round (SP / (1 + a)) \<le> Math_round 0" by (rule Math_round_mono)
  then have g: "mg_grossSalary m \<le> 0"
    using max_gross_value [OF z, of SP "pensionRate opts" m] m np by (simp add: Math_round_def)
  have "avail * (real k / 100) \<ge> avail * 1"
    using av ok unfolding avail_def by (intro mult_left_mono_neg) simp_all
  then have "avail - SP \<le> 0" unfolding SP_def by simp
  then have D0: "D \<le> 0" unfolding D_def by (simp add: CORPORATE_TAX_RATE_def)
  then have "dt_netDividend (calculateDividendTax D 0) = Math_round D"
    using dividend_tax_shape [of D 0] by (simp add: max_def)
  moreover have "Math_round D \<le> Math_round 0" using D0 by (rule Math_round_mono)
  ultimately have nd: "dt_netDividend (calculateDividendTax D 0) \<le> 0"
    by (simp add: Math_round_def)
  have "real_of_int (mg_grossSalary m) - totalSalaryTax_of (real_of_int (mg_grossSalary m)) \<le> 0"
    using g by (intro salary_tax_of_nonpositive) simp
  with nd have "real_of_int (mg_grossSalary m) - totalSalaryTax_of (real_of_int (mg_grossSalary m))
           + real_of_int (dt_netDividend (calculateDividendTax D 0)) \<le> 0" by simp
  then have "netPrivatePayout (cmb_results s) \<le> Math_round 0"
    unfolding n by (rule Math_round_mono)
  then show ?thesis
    by (simp add: payoutAt_def s Math_round_def)
qed


lemmas rate_constants =
  CORPORATE_TAX_RATE_def PERSONAL_TAX_RATE_def SOCIAL_SECURITY_RATES_salary_def
  SOCIAL_SECURITY_THRESHOLD_def DIVIDEND_GROSS_UP_FACTOR_def MINSTEFRADRAG_rate_def
  MINSTEFRADRAG_minimum_def MINSTEFRADRAG_maximum_def PERSONFRADRAG_def



lemma salary_tax_examples:
  "totalSalaryTax_of 0 = 0" "totalSalaryTax_of 50000 = 3900"
  by (simp_all add: totalSalaryTax_of_def trinnskatt_below_first_threshold rate_constants)

lemma dividend_net_nonpositive:
  "d \<le> 0 \<Longrightarrow> dt_netDividend (calculateDividendTax d 0) = Math_round d"
  using dividend_tax_shape [of d 0] by (simp add: max_def)











text \<open>
  C10. With a valid zone and any positive search step, if no evaluated ratio (no multiple
  of the step up to 100) has a strictly positive net private payout, then
  \<^verbatim>\<open>findOptimalRatio\<close> returns the optimal ratio 0 with the optimal net payout 0, and
  the total tax of \<^verbatim>\<open>comparison.optimal\<close> is the initial \<^verbatim>\<open>Infinity\<close>: not the
  total tax of the scenario at ratio 0 that is returned as optimal, nor that of any entry
  of the search trace.
\<close>

theorem C10_no_positive_payout_keeps_sentinel:
  assumes z: "EMPLOYER_SOCIAL_SECURITY_RATES zone = Some a" and pos: "0 < searchStep opts"
    and np: "\<forall>k\<le>100. searchStep opts dvd k \<longrightarrow> payoutAt profit zone opts k \<le> 0"
  shows "\<exists>res. findOptimalRatio profit zone opts = Some (Inr res)
     \<and> res_optimalRatio res = 0
     \<and> ce_netPayout (cmp_optimal res) = 0
     \<and> ce_totalTax (cmp_optimal res) = Infinity
     \<and> ce_totalTax (cmp_optimal res) \<noteq> Finite (totalTaxPaid (cmb_results (res_optimalScenario res)))
     \<and> (\<forall>e \<in> set (res_searchResults res). ce_totalTax (cmp_optimal res) \<noteq> Finite (se_totalTax e))"
proof -
  obtain st where l: "searchLoop profit zone opts 0 initial_search_state = Some st"
    and st: "optimalNetPayout st = 0" "optimalRatio st = 0" "optimalTax st = Infinity"
    using searchLoop_no_positive [OF z pos np, of 0 initial_search_state]
    by (auto simp: initial_search_state_def)
  have b: "optimalRatio st \<le> 100" using st by simp
  obtain res where "findOptimalRatio profit zone opts = Some (Inr res)"
    "res_optimalRatio res = optimalRatio st"
    "ce_netPayout (cmp_optimal res) = optimalNetPayout st"
    "ce_totalTax (cmp_optimal res) = optimalTax st"
    using findOptimalRatio_result [OF z l b] by blast
  with st show ?thesis by auto
qed


theorem C10_zero_profit_witness:
  "EMPLOYER_SOCIAL_SECURITY_RATES ''1'' = Some 0.141 \<and> 0 < searchStep default_search_options
   \<and> payoutAt 0 ''1'' default_search_options 0 \<le> 0
   \<and> payoutAt 0 ''1'' default_search_options 100 \<le> 0
   \<and> (\<exists>res. findOptimalRatio 0 ''1'' default_search_options = Some (Inr res)
     \<and> res_optimalRatio res = 0
     \<and> ce_netPayout (cmp_optimal res) = 0
     \<and> ce_totalTax (cmp_optimal res) = Infinity)"
proof -
  have np: "\<forall>k\<le>100. searchStep default_search_options dvd k
          \<longrightarrow> payoutAt 0 ''1'' default_search_options k \<le> 0"
    using payout_nonpositive [OF zone_1, of default_search_options _ 0]
    by (simp add: default_search_options_def)
  have pos: "0 < searchStep default_search_options"
    by (simp add: default_search_options_def)
  have "payoutAt 0 ''1'' default_search_options 0 \<le> 0"
    "payoutAt 0 ''1'' default_search_options 100 \<le> 0"
    using np by (simp_all add: default_search_options_def)
  then show ?thesis
    using C10_no_positive_payout_keeps_sentinel [OF zone_1 pos np] zone_1 pos by blast
qed

subsection \<open>The combination scenario at the ends of the ratio range\<close>

lemma c4_bracket: "totalBracketTax (calculateBracketTax 50000) = 0"
  by (simp add: calculateBracketTax_def BRACKET_TAX_2025_def min_next_def Math_round_def Let_def)

lemma c4_trygd: "contribution (calculateSocialSecurityContribution 50000) = 0"
  by (simp add: calculateSocialSecurityContribution_def SOCIAL_SECURITY_THRESHOLD_def)

lemma c4_income: "incomeTax (calculateIncomeTax 50000) = 0"
  by (simp add: calculateIncomeTax_def calculateMinstefradrag_def rate_constants Math_round_def Let_def)

text \<open>
  C4 at the failing input. For a profit of 50 000 in zone 5 the gross salary is 50 000,
  below the threshold of 69 650 under which \<^verbatim>\<open>calculateSocialSecurityContribution\<close>
  charges nothing: the salary scenario pays out 50 000. The combination scenario at ratio
  100 computes the contribution inline, without the threshold, as 7.8% of the gross
  salary, and pays out 46 100.
\<close>

theorem C4_ratio_100_differs_below_contribution_threshold:
  "\<not> isl (calculateSalaryScenario 50000 ''5'' default_options)
   \<and> netPrivatePayout (sal_results (projr (calculateSalaryScenario 50000 ''5'' default_options)))
       = 50000
   \<and> \<not> isl (calculateCombinationScenario 50000 ''5'' 100 default_options)
   \<and> netPrivatePayout (cmb_results (projr (calculateCombinationScenario 50000 ''5'' 100 default_options)))
       = 46100"
proof -
  have m: "calculateMaxGrossSalary (50000 - 50000 * retentionPercentage default_options) ''5''
      (includePension default_options) (pensionRate default_options) =
     Inr \<lparr>mg_grossSalary = 50000, mg_employerAGA = 0, mg_pensionContribution = 0,
          mg_pensionAGA = 0, mg_totalEmployerCost = 50000\<rparr>"
    by (simp add: calculateMaxGrossSalary_def default_options_def zone_5 Let_def Math_round_def)
  have m': "calculateMaxGrossSalary
      ((50000 - 50000 * retentionPercentage default_options) * (100 / 100)) ''5''
      (includePension default_options) (pensionRate default_options) =
     Inr \<lparr>mg_grossSalary = 50000, mg_employerAGA = 0, mg_pensionContribution = 0,
          mg_pensionAGA = 0, mg_totalEmployerCost = 50000\<rparr>"
    using m by simp
  have sal: "\<not> isl (calculateSalaryScenario 50000 ''5'' default_options)
     \<and> netPrivatePayout (sal_results (projr (calculateSalaryScenario 50000 ''5'' default_options)))
       = 50000"
    using salary_results_shape [OF m]
    by (auto simp: totalPersonalTax_of_def c4_bracket c4_trygd c4_income)
  have cmb: "\<not> isl (calculateCombinationScenario 50000 ''5'' 100 default_options)
   \<and> netPrivatePayout (cmb_results (projr (calculateCombinationScenario 50000 ''5'' 100 default_options)))
       = 46100"
    using combination_results_shape [OF _ _ m', simplified]
    by (auto simp: default_options_def salary_tax_examples dividend_net_nonpositive Math_round_def)
  from sal cmb show ?thesis by blast
qed


end
